theory Spec2Isabelle
  imports Main "HOL-Library.Word"
begin

unbundle bit_operations_syntax

section \<open>Data model of pa3.c\<close>

text \<open>
  \<^verbatim>\<open>unsigned int\<close> is a 32-bit word: \<^verbatim>\<open>mapcounts[i]++\<close> and \<^verbatim>\<open>mapcounts[vpn]--\<close> wrap.
\<close>

type_synonym u32 = "32 word"

text \<open>
  Modelled from the spec: the macro \<^verbatim>\<open>NR_PTES_PER_PAGE\<close> of vm.h, a header that pa3.c
  includes and the repository lacks (the spec's \<^verbatim>\<open>ENTRIES_PER_DIRECTORY\<close>). Its value is the literal bound 16 that
  \<^verbatim>\<open>free_page\<close> uses for the same two arrays; the TLB, declared with
  \<^verbatim>\<open>1UL << (PTES_PER_PAGE_SHIFT * 2)\<close> entries, is scanned up to the literal 256, and
  \<^verbatim>\<open>mapcounts\<close> up to the literal 128.
\<close>

definition NR_PTES_PER_PAGE :: nat where
  "NR_PTES_PER_PAGE = 16"

definition NR_PAGEFRAMES :: nat where
  "NR_PAGEFRAMES = 128"

definition NR_TLB_ENTRIES :: nat where
  "NR_TLB_ENTRIES = 256"

text \<open>
  Modelled from the spec: \<^verbatim>\<open>struct tlb_entry\<close>, \<^verbatim>\<open>struct pte\<close>,
  \<^verbatim>\<open>struct pte_directory\<close>, \<^verbatim>\<open>struct pagetable\<close> and \<^verbatim>\<open>struct process\<close> of the
  missing header vm.h, with the fields that pa3.c reads and writes. The access mode \<^verbatim>\<open>rw\<close> is an
  \<^verbatim>\<open>unsigned int\<close> of flags, \<^verbatim>\<open>private\<close> is an \<^verbatim>\<open>unsigned int\<close>.
\<close>

record tlb_entry =
  valid :: bool
  rw :: u32
  vpn :: u32
  pfn :: u32

record pte =
  valid :: bool
  rw :: u32
  pfn :: u32
  "private" :: u32

type_synonym pte_directory = "pte list"

text \<open>
  A pointer to a directory is \<open>None\<close> for \<^verbatim>\<open>NULL\<close> and \<open>Some a\<close> for the address \<open>a\<close>;
  the directories live in the store \<open>dirs\<close> of the state.
\<close>

record pagetable =
  outer_ptes :: "nat option list"

record process =
  pid :: u32
  pagetable :: pagetable

text \<open>
  The globals of pa3.c and the heap that \<^verbatim>\<open>malloc\<close> hands out. \<open>procs\<close> and \<open>dirs\<close> map
  addresses to the process and directory objects stored there, \<open>heap_top\<close> is the
  next address \<^verbatim>\<open>malloc\<close> returns. \<open>processes\<close> is the ready queue, first entry first,
  as a list of process addresses; \<open>current\<close> and \<open>ptbr\<close> are addresses of processes
  (\<open>ptbr\<close> points at the page table embedded in that process). \<open>tlbidx\<close> is the
  \<^verbatim>\<open>static int\<close> of \<^verbatim>\<open>insert_tlb\<close>.
\<close>

record state =
  procs :: "nat \<Rightarrow> process option"
  dirs :: "nat \<Rightarrow> pte_directory option"
  heap_top :: nat
  processes :: "nat list"
  current :: nat
  ptbr :: nat
  tlb :: "tlb_entry list"
  tlbidx :: int
  mapcounts :: "u32 list"

section \<open>Memory accesses\<close>

text \<open>
  Every function returns an option: \<open>None\<close> is an invalid memory access of the C program
  (a \<^verbatim>\<open>NULL\<close> or dangling pointer dereferenced, an array indexed out of its bounds).
\<close>

text \<open>\<^verbatim>\<open>p->pagetable.outer_ptes[i]\<close> for the process at address \<open>a\<close>, read and written.\<close>

definition read_dirptr :: "state \<Rightarrow> nat \<Rightarrow> nat \<Rightarrow> nat option option" where
  "read_dirptr s a i =
     (case procs s a of
        None \<Rightarrow> None
      | Some p \<Rightarrow>
          if i < length (outer_ptes (pagetable p)) then Some (outer_ptes (pagetable p) ! i)
          else None)"

definition write_dirptr :: "state \<Rightarrow> nat \<Rightarrow> nat \<Rightarrow> nat option \<Rightarrow> state option" where
  "write_dirptr s a i dp =
     (case procs s a of
        None \<Rightarrow> None
      | Some p \<Rightarrow>
          if i < length (outer_ptes (pagetable p)) then
            Some (s\<lparr>procs := (procs s)(a \<mapsto>
              p\<lparr>pagetable := \<lparr>outer_ptes = (outer_ptes (pagetable p))[i := dp]\<rparr>\<rparr>)\<rparr>)
          else None)"

text \<open>\<^verbatim>\<open>p->pagetable.outer_ptes[i]->ptes[j]\<close> for the process at address \<open>a\<close>.\<close>

definition read_pte :: "state \<Rightarrow> nat \<Rightarrow> nat \<Rightarrow> nat \<Rightarrow> pte option" where
  "read_pte s a i j =
     (case read_dirptr s a i of
        None \<Rightarrow> None
      | Some None \<Rightarrow> None
      | Some (Some da) \<Rightarrow>
          (case dirs s da of
             None \<Rightarrow> None
           | Some d \<Rightarrow> if j < length d then Some (d ! j) else None))"

definition write_pte :: "state \<Rightarrow> nat \<Rightarrow> nat \<Rightarrow> nat \<Rightarrow> pte \<Rightarrow> state option" where
  "write_pte s a i j e =
     (case read_dirptr s a i of
        None \<Rightarrow> None
      | Some None \<Rightarrow> None
      | Some (Some da) \<Rightarrow>
          (case dirs s da of
             None \<Rightarrow> None
           | Some d \<Rightarrow>
               if j < length d then Some (s\<lparr>dirs := (dirs s)(da \<mapsto> d[j := e])\<rparr>)
               else None))"

text \<open>
  \<^verbatim>\<open>malloc\<close> returns the address \<open>heap_top\<close>. It does not initialise the object: what the
  new object holds is the argument \<open>content\<close>, which the caller of the model chooses.
\<close>

definition malloc_dir :: "pte_directory \<Rightarrow> state \<Rightarrow> nat \<times> state" where
  "malloc_dir content s =
     (heap_top s, s\<lparr>dirs := (dirs s)(heap_top s \<mapsto> content), heap_top := heap_top s + 1\<rparr>)"

definition malloc_proc :: "process \<Rightarrow> state \<Rightarrow> nat \<times> state" where
  "malloc_proc content s =
     (heap_top s, s\<lparr>procs := (procs s)(heap_top s \<mapsto> content), heap_top := heap_top s + 1\<rparr>)"

section \<open>lookup_tlb\<close>

text \<open>
  The loop \<^verbatim>\<open>for(int i=0;i<256;i++)\<close> over the indices that remain. On a match the source
  returns true; when the indices are used up it returns false.
\<close>

fun lookup_tlb_loop :: "tlb_entry list \<Rightarrow> u32 \<Rightarrow> u32 \<Rightarrow> nat list \<Rightarrow> bool option" where
  "lookup_tlb_loop t vpn' rw' [] = Some False"
| "lookup_tlb_loop t vpn' rw' (i # is) =
     (if i < length t then
        (if tlb_entry.valid (t ! i) \<and> tlb_entry.vpn (t ! i) = vpn' \<and> tlb_entry.rw (t ! i) = rw'
         then Some True
         else lookup_tlb_loop t vpn' rw' is)
      else None)"

text \<open>
  \<open>out\<close> is what the caller's \<^verbatim>\<open>unsigned int\<close> that \<^verbatim>\<open>pfn\<close> points at holds before the call;
  the result is the return value and what that object holds after the call. On a match
  the source executes \<^verbatim>\<open>pfn = &tlb->pfn;\<close>: it assigns the local pointer and stores nothing
  through it.
\<close>

definition lookup_tlb :: "u32 \<Rightarrow> u32 \<Rightarrow> u32 \<Rightarrow> state \<Rightarrow> (bool \<times> u32) option" where
  "lookup_tlb vpn' rw' out s =
     (case lookup_tlb_loop (tlb s) vpn' rw' [0..<256] of
        None \<Rightarrow> None
      | Some b \<Rightarrow> Some (b, out))"

section \<open>insert_tlb\<close>

definition insert_tlb :: "u32 \<Rightarrow> u32 \<Rightarrow> u32 \<Rightarrow> state \<Rightarrow> state option" where
  "insert_tlb vpn' rw' pfn' s =
     (let newtlb = \<lparr>tlb_entry.valid = True, rw = rw', vpn = vpn', pfn = pfn'\<rparr> in
      if 0 \<le> tlbidx s \<and> nat (tlbidx s) < length (tlb s) then
        Some (s\<lparr>tlb := (tlb s)[nat (tlbidx s) := newtlb], tlbidx := tlbidx s + 1\<rparr>)
      else None)"

section \<open>alloc_page\<close>

text \<open>
  The loop \<^verbatim>\<open>for(int i=0;i<128;i++)\<close>: the result is the new \<^verbatim>\<open>mapcounts\<close> and the value of
  \<^verbatim>\<open>newpte.pfn\<close> after the loop. \<open>junk\<close> is what the uninitialised \<^verbatim>\<open>newpte.pfn\<close> holds;
  it is still there when the loop ends without a \<^verbatim>\<open>break\<close>.
\<close>

fun alloc_scan :: "u32 list \<Rightarrow> u32 \<Rightarrow> nat list \<Rightarrow> (u32 list \<times> u32) option" where
  "alloc_scan mc junk [] = Some (mc, junk)"
| "alloc_scan mc junk (i # is) =
     (if i < length mc then
        (if mc ! i = 0 then Some (mc[i := mc ! i + 1], of_nat i)
         else alloc_scan mc junk is)
      else None)"

text \<open>
  \<open>fresh\<close> is what the directory holds that \<^verbatim>\<open>malloc\<close> returns, \<open>junk\<close> what the
  uninitialised \<^verbatim>\<open>newpte.pfn\<close> holds. The result is the new state and the return value.
\<close>

definition alloc_page ::
  "pte_directory \<Rightarrow> u32 \<Rightarrow> u32 \<Rightarrow> u32 \<Rightarrow> state \<Rightarrow> (state \<times> u32) option" where
  "alloc_page fresh junk vpn' rw' s =
     (let directoryidx = unat vpn' div NR_PTES_PER_PAGE;
          pteidx = unat vpn' mod NR_PTES_PER_PAGE
      in case read_dirptr s (current s) directoryidx of
           None \<Rightarrow> None
         | Some dp \<Rightarrow>
            (case (if dp = None
                   then (let (a, s1) = malloc_dir fresh s
                         in write_dirptr s1 (current s1) directoryidx (Some a))
                   else Some s) of
               None \<Rightarrow> None
             | Some s2 \<Rightarrow>
                (case alloc_scan (mapcounts s2) junk [0..<128] of
                   None \<Rightarrow> None
                 | Some (mc, newpfn) \<Rightarrow>
                    (let s3 = s2\<lparr>mapcounts := mc\<rparr>;
                         newpte = \<lparr>pte.valid = True, rw = rw', pfn = newpfn, private = 0\<rparr>
                     in case write_pte s3 (current s3) directoryidx pteidx newpte of
                          None \<Rightarrow> None
                        | Some s4 \<Rightarrow> Some (s4, newpfn)))))"

section \<open>free_page\<close>

text \<open>
  The loop \<^verbatim>\<open>for(int i=0;i<256;i++)\<close> of \<^verbatim>\<open>free_page\<close>: the first entry whose \<^verbatim>\<open>vpn\<close>
  field is \<^verbatim>\<open>vpn\<close> is marked invalid, then \<^verbatim>\<open>break\<close>.
\<close>

fun free_page_tlb :: "tlb_entry list \<Rightarrow> u32 \<Rightarrow> nat list \<Rightarrow> tlb_entry list option" where
  "free_page_tlb t vpn' [] = Some t"
| "free_page_tlb t vpn' (i # is) =
     (if i < length t then
        (if tlb_entry.vpn (t ! i) = vpn' then Some (t[i := (t ! i)\<lparr>tlb_entry.valid := False\<rparr>])
         else free_page_tlb t vpn' is)
      else None)"

text \<open>
  The body of the \<^verbatim>\<open>if\<close> in \<^verbatim>\<open>free_page\<close>, for the entry \<open>e\<close> read at
  \<open>(directoryidx, pteidx)\<close>: three fields of the entry are cleared, \<^verbatim>\<open>mapcounts[vpn]\<close> is
  decremented, the TLB is scanned.
\<close>

definition free_page_hit :: "u32 \<Rightarrow> nat \<Rightarrow> nat \<Rightarrow> pte \<Rightarrow> state \<Rightarrow> state option" where
  "free_page_hit vpn' directoryidx pteidx e s =
     (case write_pte s (current s) directoryidx pteidx
             (e\<lparr>rw := 0, pte.valid := False, pfn := 0\<rparr>) of
        None \<Rightarrow> None
      | Some s1 \<Rightarrow>
          if unat vpn' < length (mapcounts s1) then
            (let s2 = s1\<lparr>mapcounts :=
                        (mapcounts s1)[unat vpn' := mapcounts s1 ! unat vpn' - 1]\<rparr>
             in case free_page_tlb (tlb s2) vpn' [0..<256] of
                  None \<Rightarrow> None
                | Some t \<Rightarrow> Some (s2\<lparr>tlb := t\<rparr>))
          else None)"

text \<open>
  The two nested loops of \<^verbatim>\<open>free_page\<close> over the pairs \<open>(directoryidx, pteidx)\<close> that
  remain, in the order the source visits them. The source compares the entry's
  \<^verbatim>\<open>private\<close> field with \<^verbatim>\<open>vpn\<close> and returns after the first hit.
\<close>

fun free_page_loop :: "u32 \<Rightarrow> (nat \<times> nat) list \<Rightarrow> state \<Rightarrow> state option" where
  "free_page_loop vpn' [] s = Some s"
| "free_page_loop vpn' ((directoryidx, pteidx) # rest) s =
     (case read_pte s (current s) directoryidx pteidx of
        None \<Rightarrow> None
      | Some e \<Rightarrow>
          if private e = vpn' then free_page_hit vpn' directoryidx pteidx e s
          else free_page_loop vpn' rest s)"

definition free_page :: "u32 \<Rightarrow> state \<Rightarrow> state option" where
  "free_page vpn' s =
     free_page_loop vpn' (List.product [0..<16] [0..<16]) s"

section \<open>handle_page_fault\<close>

text \<open>The body of the source is \<^verbatim>\<open>return false;\<close>.\<close>

definition handle_page_fault :: "u32 \<Rightarrow> u32 \<Rightarrow> state \<Rightarrow> state \<times> bool" where
  "handle_page_fault vpn' rw' s = (s, False)"

section \<open>switch_process\<close>

text \<open>
  Modelled from the spec: \<^verbatim>\<open>list_for_each_entry\<close>, \<^verbatim>\<open>list_del\<close> and \<^verbatim>\<open>list_add\<close> of
  the missing header list_head.h: the ready queue is walked from its first
  entry, \<^verbatim>\<open>list_del\<close> unlinks one entry, \<^verbatim>\<open>list_add\<close> links an entry in at the front.
\<close>

fun list_find_pid :: "(nat \<Rightarrow> process option) \<Rightarrow> u32 \<Rightarrow> nat list \<Rightarrow> nat option option" where
  "list_find_pid h pid' [] = Some None"
| "list_find_pid h pid' (pos # rest) =
     (case h pos of
        None \<Rightarrow> None
      | Some p \<Rightarrow> if pid p = pid' then Some (Some pos) else list_find_pid h pid' rest)"

definition list_del :: "nat \<Rightarrow> nat list \<Rightarrow> nat list" where
  "list_del pos q = remove1 pos q"

definition list_add :: "nat \<Rightarrow> nat list \<Rightarrow> nat list" where
  "list_add a q = a # q"

text \<open>
  The condition of line 239, \<^verbatim>\<open>rw == ACCESS_WRITE | ACCESS_READ\<close>. In C \<^verbatim>\<open>==\<close> binds
  tighter than \<^verbatim>\<open>|\<close>: the comparison gives 1 or 0, which is or-ed with \<^verbatim>\<open>ACCESS_READ\<close>.
  The two macros are defined in the missing header vm.h; they are parameters of the
  model.
\<close>

definition cow_test :: "u32 \<Rightarrow> u32 \<Rightarrow> u32 \<Rightarrow> bool" where
  "cow_test ACCESS_READ ACCESS_WRITE r =
     (((if r = ACCESS_WRITE then 1 else 0) OR ACCESS_READ) \<noteq> 0)"

text \<open>
  The body of the inner loop of the fork, for the entry \<open>(i, j)\<close>. \<open>junk\<close> is what the
  uninitialised \<^verbatim>\<open>newpte.private\<close> holds: the \<^verbatim>\<open>else\<close> branch does not assign it.
\<close>

definition fork_pte :: "u32 \<Rightarrow> u32 \<Rightarrow> u32 \<Rightarrow> nat \<Rightarrow> nat \<Rightarrow> nat \<Rightarrow> state \<Rightarrow> state option" where
  "fork_pte ACCESS_READ ACCESS_WRITE junk newprocess i j s =
     (case read_pte s (current s) i j of
        None \<Rightarrow> None
      | Some e \<Rightarrow>
          if pte.valid e then
            (case (if cow_test ACCESS_READ ACCESS_WRITE (pte.rw e)
                   then (case write_pte s (current s) i j (e\<lparr>rw := ACCESS_READ, private := 1\<rparr>) of
                           None \<Rightarrow> None
                         | Some s1 \<Rightarrow> Some (s1, ACCESS_READ, 1))
                   else Some (s, pte.rw e, junk)) of
               None \<Rightarrow> None
             | Some (s1, newrw, newprivate) \<Rightarrow>
                (case read_pte s1 (current s1) i j of
                   None \<Rightarrow> None
                 | Some e1 \<Rightarrow>
                    (case write_pte s1 newprocess i j
                            \<lparr>pte.valid = True, rw = newrw, pfn = pte.pfn e1, private = newprivate\<rparr> of
                       None \<Rightarrow> None
                     | Some s2 \<Rightarrow>
                        if i * NR_PTES_PER_PAGE + j < length (mapcounts s2) then
                          Some (s2\<lparr>mapcounts := (mapcounts s2)[i * NR_PTES_PER_PAGE + j :=
                                  mapcounts s2 ! (i * NR_PTES_PER_PAGE + j) + 1]\<rparr>)
                        else None)))
          else Some s)"

fun fork_ptes :: "u32 \<Rightarrow> u32 \<Rightarrow> u32 \<Rightarrow> nat \<Rightarrow> nat \<Rightarrow> nat list \<Rightarrow> state \<Rightarrow> state option" where
  "fork_ptes ACCESS_READ ACCESS_WRITE junk newprocess i [] s = Some s"
| "fork_ptes ACCESS_READ ACCESS_WRITE junk newprocess i (j # js) s =
     (case fork_pte ACCESS_READ ACCESS_WRITE junk newprocess i j s of
        None \<Rightarrow> None
      | Some s1 \<Rightarrow> fork_ptes ACCESS_READ ACCESS_WRITE junk newprocess i js s1)"

text \<open>
  The body of the outer loop of the fork, for the directory \<open>i\<close>. \<open>fresh i\<close> is what the
  directory holds that \<^verbatim>\<open>malloc\<close> returns for it.
\<close>

definition fork_dir ::
  "u32 \<Rightarrow> u32 \<Rightarrow> u32 \<Rightarrow> (nat \<Rightarrow> pte_directory) \<Rightarrow> nat \<Rightarrow> nat \<Rightarrow> state \<Rightarrow> state option" where
  "fork_dir ACCESS_READ ACCESS_WRITE junk fresh newprocess i s =
     (case read_dirptr s (current s) i of
        None \<Rightarrow> None
      | Some None \<Rightarrow> Some s
      | Some (Some da) \<Rightarrow>
          (let (a, s1) = malloc_dir (fresh i) s
           in case write_dirptr s1 newprocess i (Some a) of
                None \<Rightarrow> None
              | Some s2 \<Rightarrow>
                  fork_ptes ACCESS_READ ACCESS_WRITE junk newprocess i [0..<NR_PTES_PER_PAGE] s2))"

fun fork_dirs ::
  "u32 \<Rightarrow> u32 \<Rightarrow> u32 \<Rightarrow> (nat \<Rightarrow> pte_directory) \<Rightarrow> nat \<Rightarrow> nat list \<Rightarrow> state \<Rightarrow> state option" where
  "fork_dirs ACCESS_READ ACCESS_WRITE junk fresh newprocess [] s = Some s"
| "fork_dirs ACCESS_READ ACCESS_WRITE junk fresh newprocess (i # is) s =
     (case fork_dir ACCESS_READ ACCESS_WRITE junk fresh newprocess i s of
        None \<Rightarrow> None
      | Some s1 \<Rightarrow> fork_dirs ACCESS_READ ACCESS_WRITE junk fresh newprocess is s1)"

text \<open>
  \<open>raw\<close> is what the process object holds that \<^verbatim>\<open>malloc\<close> returns (the source assigns its
  \<^verbatim>\<open>pid\<close> and the directory pointers of the directories it copies, nothing else).
  Neither branch assigns \<^verbatim>\<open>ptbr\<close>.
\<close>

definition switch_process ::
  "u32 \<Rightarrow> u32 \<Rightarrow> process \<Rightarrow> (nat \<Rightarrow> pte_directory) \<Rightarrow> u32 \<Rightarrow> u32 \<Rightarrow> state \<Rightarrow> state option" where
  "switch_process ACCESS_READ ACCESS_WRITE raw fresh junk pid' s =
     (case list_find_pid (procs s) pid' (processes s) of
        None \<Rightarrow> None
      | Some (Some pos) \<Rightarrow>
          (case procs s (current s) of
             None \<Rightarrow> None
           | Some c \<Rightarrow>
               Some (s\<lparr>processes := list_add (current s) (list_del pos (processes s)),
                       current := pos\<rparr>))
      | Some None \<Rightarrow>
          (let (newprocess, s1) = malloc_proc (raw\<lparr>pid := pid'\<rparr>) s
           in case fork_dirs ACCESS_READ ACCESS_WRITE junk fresh newprocess
                     [0..<NR_PTES_PER_PAGE] s1 of
                None \<Rightarrow> None
              | Some s2 \<Rightarrow>
                  (case procs s2 (current s2) of
                     None \<Rightarrow> None
                   | Some c \<Rightarrow>
                       Some (s2\<lparr>processes := list_add (current s2) (processes s2),
                                current := newprocess\<rparr>))))"

section \<open>Reference counts against page-table entries\<close>

text \<open>
  The number of valid entries with frame \<open>f\<close> in one directory, in the page table of the
  process at address \<open>a\<close>, and in the page tables of all processes (the current one and
  those of the ready queue).
\<close>

definition dir_refs :: "state \<Rightarrow> u32 \<Rightarrow> nat option \<Rightarrow> nat" where
  "dir_refs s f dp =
     (case dp of
        None \<Rightarrow> 0
      | Some da \<Rightarrow>
          (case dirs s da of
             None \<Rightarrow> 0
           | Some d \<Rightarrow> length (filter (\<lambda>e. pte.valid e \<and> pte.pfn e = f) d)))"

definition proc_refs :: "state \<Rightarrow> u32 \<Rightarrow> nat \<Rightarrow> nat" where
  "proc_refs s f a =
     (case procs s a of
        None \<Rightarrow> 0
      | Some p \<Rightarrow> sum_list (map (dir_refs s f) (outer_ptes (pagetable p))))"

definition pte_refs :: "state \<Rightarrow> u32 \<Rightarrow> nat" where
  "pte_refs s f = sum_list (map (proc_refs s f) (current s # processes s))"

definition refcount_invariant :: "state \<Rightarrow> bool" where
  "refcount_invariant s =
     list_all (\<lambda>f. unat (mapcounts s ! f) = pte_refs s (of_nat f)) [0..<length (mapcounts s)]"

section \<open>The start of the simulation and the runs examined\<close>

text \<open>
  At the start the globals are zero-initialised: one process with pid 0 and no
  directory, an empty ready queue, no valid TLB entry, every \<^verbatim>\<open>mapcounts\<close> entry 0.
  In the runs below \<^verbatim>\<open>malloc\<close> returns zero-filled memory (\<open>zero_dir\<close>, \<open>zero_process\<close>)
  and uninitialised locals hold 0 unless stated otherwise.
\<close>

definition zero_pte :: pte where
  "zero_pte = \<lparr>pte.valid = False, rw = 0, pfn = 0, private = 0\<rparr>"

definition zero_dir :: pte_directory where
  "zero_dir = replicate 16 zero_pte"

definition zero_process :: process where
  "zero_process = \<lparr>pid = 0, pagetable = \<lparr>outer_ptes = replicate 16 None\<rparr>\<rparr>"

definition init_state :: state where
  "init_state =
     \<lparr>procs = [0 \<mapsto> zero_process], dirs = Map.empty, heap_top = 1, processes = [],
      current = 0, ptbr = 0,
      tlb = replicate 256 \<lparr>tlb_entry.valid = False, rw = 0, vpn = 0, pfn = 0\<rparr>,
      tlbidx = 0, mapcounts = replicate 128 0\<rparr>"

text \<open>Every frame is mapped once: no \<^verbatim>\<open>mapcounts\<close> entry is 0.\<close>

definition full_state :: state where
  "full_state = init_state\<lparr>mapcounts := replicate 128 1\<rparr>"

text \<open>\<^verbatim>\<open>switch_process\<close> with \<^verbatim>\<open>ACCESS_READ\<close> = 1 and \<^verbatim>\<open>ACCESS_WRITE\<close> = 2.\<close>

definition switch_to :: "u32 \<Rightarrow> state \<Rightarrow> state option" where
  "switch_to = switch_process 1 2 zero_process (\<lambda>i. zero_dir) 0"

text \<open>
  From the start: \<^verbatim>\<open>alloc_page(5, rw)\<close>, which maps vpn 5 to frame 0, then
  \<^verbatim>\<open>switch_process(1)\<close>, which forks process 1.
\<close>

definition alloc_then_fork :: "u32 \<Rightarrow> state option" where
  "alloc_then_fork rw' =
     Option.bind (alloc_page zero_dir 0 5 rw' init_state) (\<lambda>(s, f). switch_to 1 s)"

text \<open>
  From the start: \<^verbatim>\<open>switch_process(1)\<close> forks process 1, \<^verbatim>\<open>switch_process(0)\<close> goes back
  to process 0.
\<close>

definition fork_and_back :: "state option" where
  "fork_and_back = Option.bind (switch_to 1 init_state) (switch_to 0)"

section \<open>Facts about the loops and the memory accesses\<close>

lemma cow_test_always: "ACCESS_READ \<noteq> 0 \<Longrightarrow> cow_test ACCESS_READ ACCESS_WRITE r"
  by (simp add: cow_test_def or_eq_0_iff)

lemma lookup_tlb_loop_iff:
  "\<forall>i\<in>set is. i < length t \<Longrightarrow>
   lookup_tlb_loop t vpn' rw' is =
     Some (\<exists>i\<in>set is. tlb_entry.valid (t ! i) \<and> tlb_entry.vpn (t ! i) = vpn' \<and>
                       tlb_entry.rw (t ! i) = rw')"
  by (induction "is") auto

text \<open>
  The return value of \<^verbatim>\<open>lookup_tlb\<close> is true exactly when some entry is valid and has
  the requested \<^verbatim>\<open>vpn\<close> and the requested \<^verbatim>\<open>rw\<close>; the caller's object is as it was.
\<close>

lemma lookup_tlb_hit_iff:
  assumes "length (tlb s) = NR_TLB_ENTRIES"
  shows "lookup_tlb vpn' rw' out s =
     Some ((\<exists>i<256. tlb_entry.valid (tlb s ! i) \<and> tlb_entry.vpn (tlb s ! i) = vpn' \<and>
                     tlb_entry.rw (tlb s ! i) = rw'), out)"
proof -
  have "\<forall>i\<in>set [0..<256]. i < length (tlb s)"
    using assms by (simp add: NR_TLB_ENTRIES_def)
  from lookup_tlb_loop_iff[OF this, of vpn' rw'] show ?thesis
    by (simp add: lookup_tlb_def Bex_def)
qed

lemma lookup_tlb_out_unchanged:
  "lookup_tlb vpn' rw' out s = Some (b, out') \<Longrightarrow> out' = out"
  by (auto simp: lookup_tlb_def split: option.splits)

text \<open>\<^verbatim>\<open>insert_tlb\<close> writes the slot \<^verbatim>\<open>tlbidx\<close>, whatever the TLB holds, and never wraps.\<close>

lemma insert_tlb_slot:
  assumes "insert_tlb vpn' rw' pfn' s = Some s'"
  shows "tlb s' = (tlb s)[nat (tlbidx s) :=
                    \<lparr>tlb_entry.valid = True, rw = rw', vpn = vpn', pfn = pfn'\<rparr>] \<and>
         tlbidx s' = tlbidx s + 1"
  using assms by (auto simp: insert_tlb_def Let_def split: if_splits)

lemma insert_tlb_full:
  "int (length (tlb s)) \<le> tlbidx s \<Longrightarrow> insert_tlb vpn' rw' pfn' s = None"
  by (auto simp: insert_tlb_def Let_def)

text \<open>The frame scan of \<^verbatim>\<open>alloc_page\<close>.\<close>

lemma alloc_scan_total:
  "\<forall>i\<in>set is. i < length mc \<Longrightarrow> \<exists>mc' f. alloc_scan mc junk is = Some (mc', f)"
  by (induction "is") auto

lemma alloc_scan_upt:
  assumes "length mc = NR_PAGEFRAMES"
  shows "\<exists>mc' f. alloc_scan mc junk [0..<128] = Some (mc', f)"
  using assms by (intro alloc_scan_total) (simp add: NR_PAGEFRAMES_def)

lemma alloc_scan_skip:
  "\<forall>j\<in>set xs. j < length mc \<and> mc ! j \<noteq> 0 \<Longrightarrow>
   alloc_scan mc junk (xs @ ys) = alloc_scan mc junk ys"
  by (induction xs) auto

text \<open>With a free frame the scan takes the smallest one and sets its count to 1.\<close>

lemma alloc_scan_smallest:
  assumes k: "k < 128" "k < length mc" and z: "mc ! k = 0" and nz: "\<forall>j<k. mc ! j \<noteq> 0"
  shows "alloc_scan mc junk [0..<128] = Some (mc[k := 1], of_nat k)"
proof -
  have split: "[0..<128] = [0..<k] @ k # [Suc k..<128]"
    using k(1)
    by (metis upt_conv_Cons upt_add_eq_append le_add_diff_inverse less_or_eq_imp_le zero_le)
  have "\<forall>j\<in>set [0..<k]. j < length mc \<and> mc ! j \<noteq> 0"
    using k nz by auto
  from alloc_scan_skip[OF this] show ?thesis
    using k z by (simp add: split)
qed

text \<open>With a free frame \<open>k\<close> the scan takes a free frame up to \<open>k\<close>.\<close>

lemma alloc_scan_free:
  assumes mc: "length mc = NR_PAGEFRAMES" and free: "k < NR_PAGEFRAMES" "mc ! k = 0"
  shows "\<exists>k0\<le>k. mc ! k0 = 0 \<and> (\<forall>j<k0. mc ! j \<noteq> 0) \<and>
           alloc_scan mc junk [0..<128] = Some (mc[k0 := 1], of_nat k0)"
proof -
  define k0 where "k0 = (LEAST j. mc ! j = 0)"
  have z: "mc ! k0 = 0"
    unfolding k0_def using free(2) by (rule LeastI)
  have le: "k0 \<le> k"
    unfolding k0_def using free(2) by (rule Least_le)
  have nz: "\<forall>j<k0. mc ! j \<noteq> 0"
    unfolding k0_def using not_less_Least by blast
  have "k0 < 128" "k0 < length mc"
    using le free(1) mc by (simp_all add: NR_PAGEFRAMES_def)
  from alloc_scan_smallest[OF this z nz] z le nz show ?thesis
    by blast
qed

text \<open>Without a free frame the scan leaves \<^verbatim>\<open>newpte.pfn\<close> as it was: uninitialised.\<close>

lemma alloc_scan_exhausted:
  assumes "128 \<le> length mc" and "\<forall>j<128. mc ! j \<noteq> 0"
  shows "alloc_scan mc junk [0..<128] = Some (mc, junk)"
proof -
  have "\<forall>j\<in>set [0..<128]. j < length mc \<and> mc ! j \<noteq> 0"
    using assms by auto
  from alloc_scan_skip[OF this, of junk "[]"] show ?thesis
    by simp
qed

text \<open>Reading and writing page-table entries.\<close>

lemma read_pte_SomeD:
  assumes "read_pte s a i j = Some e"
  shows "\<exists>p da d. procs s a = Some p \<and> i < length (outer_ptes (pagetable p)) \<and>
           outer_ptes (pagetable p) ! i = Some da \<and> dirs s da = Some d \<and>
           j < length d \<and> d ! j = e"
proof (cases "procs s a")
  case None
  with assms show ?thesis by (simp add: read_pte_def read_dirptr_def)
next
  case (Some p)
  show ?thesis
  proof (cases "i < length (outer_ptes (pagetable p))")
    case False
    with assms Some show ?thesis by (simp add: read_pte_def read_dirptr_def)
  next
    case True
    show ?thesis
    proof (cases "outer_ptes (pagetable p) ! i")
      case None
      with assms Some True show ?thesis by (simp add: read_pte_def read_dirptr_def)
    next
      case da: (Some da)
      show ?thesis
      proof (cases "dirs s da")
        case None
        with assms Some True da show ?thesis by (simp add: read_pte_def read_dirptr_def)
      next
        case d: (Some d)
        with assms Some True da show ?thesis
          by (cases "j < length d") (simp_all add: read_pte_def read_dirptr_def)
      qed
    qed
  qed
qed

lemma read_pte_SomeI:
  assumes "procs s a = Some p" and "i < length (outer_ptes (pagetable p))"
    and "outer_ptes (pagetable p) ! i = Some da" and "dirs s da = Some d" and "j < length d"
  shows "read_pte s a i j = Some (d ! j)"
  using assms by (simp add: read_pte_def read_dirptr_def)

lemma read_pte_cong:
  assumes "procs s' = procs s" and "dirs s' = dirs s"
  shows "read_pte s' a i j = read_pte s a i j"
  unfolding read_pte_def read_dirptr_def assms ..

lemma write_pte_current:
  assumes "write_pte s a i j e = Some s1"
  shows "current s1 = current s"
proof (cases "read_dirptr s a i")
  case None
  with assms show ?thesis by (simp add: write_pte_def)
next
  case (Some dp)
  show ?thesis
  proof (cases dp)
    case None
    with assms Some show ?thesis by (simp add: write_pte_def)
  next
    case da: (Some da)
    show ?thesis
    proof (cases "dirs s da")
      case None
      with assms Some da show ?thesis by (simp add: write_pte_def)
    next
      case d: (Some d)
      with assms Some da show ?thesis
        by (cases "j < length d") (auto simp: write_pte_def)
    qed
  qed
qed

text \<open>
  Writing the entry \<open>(i2, j2)\<close> leaves every entry with another value as it was, also
  when two directory pointers of the table are the same address.
\<close>

lemma write_pte_read_other:
  assumes w: "write_pte s a i2 j2 e2' = Some s1"
    and r2: "read_pte s a i2 j2 = Some e2"
    and r: "read_pte s a i j = Some e"
    and ne: "e \<noteq> e2"
  shows "read_pte s1 a i j = Some e"
proof -
  from read_pte_SomeD[OF r2] obtain p da2 d2 where p: "procs s a = Some p"
      "i2 < length (outer_ptes (pagetable p))"
      "outer_ptes (pagetable p) ! i2 = Some da2" "dirs s da2 = Some d2"
      "j2 < length d2" "d2 ! j2 = e2"
    by blast
  from read_pte_SomeD[OF r] p(1) obtain da d where q: "i < length (outer_ptes (pagetable p))"
      "outer_ptes (pagetable p) ! i = Some da" "dirs s da = Some d" "j < length d" "d ! j = e"
    by auto
  from w p have s1: "s1 = s\<lparr>dirs := (dirs s)(da2 \<mapsto> d2[j2 := e2'])\<rparr>"
    by (simp add: write_pte_def read_dirptr_def)
  have p1: "procs s1 a = Some p"
    using p(1) by (simp add: s1)
  show ?thesis
  proof (cases "da = da2")
    case True
    with p q have dd: "d = d2" by simp
    with p q ne have jj: "j \<noteq> j2" by auto
    have "dirs s1 da = Some (d[j2 := e2'])"
      using True dd by (simp add: s1)
    from read_pte_SomeI[OF p1 q(1) q(2) this] q(4,5) jj show ?thesis
      by simp
  next
    case False
    then have "dirs s1 da = Some d"
      using q(3) by (simp add: s1)
    from read_pte_SomeI[OF p1 q(1) q(2) this q(4)] q(5) show ?thesis
      by simp
  qed
qed

text \<open>\<^verbatim>\<open>free_page\<close>: what a hit does, and which entries no call can clear.\<close>

lemma free_page_hit_SomeD:
  assumes "free_page_hit vpn' directoryidx pteidx e s = Some s'"
  shows "\<exists>s1 t. write_pte s (current s) directoryidx pteidx
                   (e\<lparr>rw := 0, pte.valid := False, pfn := 0\<rparr>) = Some s1 \<and>
                 unat vpn' < length (mapcounts s1) \<and>
                 free_page_tlb (tlb s1) vpn' [0..<256] = Some t \<and>
                 s' = s1\<lparr>mapcounts := (mapcounts s1)[unat vpn' := mapcounts s1 ! unat vpn' - 1],
                         tlb := t\<rparr>"
proof (cases "write_pte s (current s) directoryidx pteidx
                (e\<lparr>rw := 0, pte.valid := False, pfn := 0\<rparr>)")
  case None
  with assms show ?thesis by (simp add: free_page_hit_def)
next
  case (Some s1)
  show ?thesis
  proof (cases "unat vpn' < length (mapcounts s1)")
    case False
    with assms Some show ?thesis by (simp add: free_page_hit_def)
  next
    case True
    show ?thesis
    proof (cases "free_page_tlb (tlb s1) vpn' [0..<256]")
      case None
      with assms Some True show ?thesis by (simp add: free_page_hit_def Let_def)
    next
      case t: (Some t)
      with assms Some True show ?thesis by (simp add: free_page_hit_def Let_def)
    qed
  qed
qed

lemma free_page_hit_keeps:
  assumes r: "read_pte s (current s) i j = Some e" and ne: "private e \<noteq> vpn'"
    and r2: "read_pte s (current s) directoryidx pteidx = Some e2" and eq: "private e2 = vpn'"
    and h: "free_page_hit vpn' directoryidx pteidx e2 s = Some s'"
  shows "read_pte s' (current s') i j = Some e"
proof -
  from free_page_hit_SomeD[OF h] obtain s1 t where
    w: "write_pte s (current s) directoryidx pteidx
        (e2\<lparr>rw := 0, pte.valid := False, pfn := 0\<rparr>) = Some s1"
    and s': "s' = s1\<lparr>mapcounts := (mapcounts s1)[unat vpn' := mapcounts s1 ! unat vpn' - 1],
                         tlb := t\<rparr>"
    by blast
  from ne eq have "e \<noteq> e2" by auto
  from write_pte_read_other[OF w r2 r this] have k: "read_pte s1 (current s) i j = Some e" .
  have p: "procs s' = procs s1"
    unfolding s' by simp
  have d: "dirs s' = dirs s1"
    unfolding s' by simp
  have c: "current s' = current s1"
    unfolding s' by simp
  have "read_pte s' (current s') i j = read_pte s1 (current s') i j"
    by (rule read_pte_cong[OF p d])
  also have "\<dots> = read_pte s1 (current s) i j"
    using c write_pte_current[OF w] by simp
  finally show ?thesis
    using k by simp
qed

lemma free_page_loop_keeps:
  assumes "read_pte s (current s) i j = Some e" and "private e \<noteq> vpn'"
    and "free_page_loop vpn' ps s = Some s'"
  shows "read_pte s' (current s') i j = Some e"
  using assms
proof (induction ps)
  case Nil
  then show ?case by simp
next
  case (Cons a ps)
  obtain directoryidx pteidx where a: "a = (directoryidx, pteidx)"
    by (cases a)
  from Cons.prems(3) obtain e2 where e2: "read_pte s (current s) directoryidx pteidx = Some e2"
    by (auto simp: a split: option.splits)
  show ?case
  proof (cases "private e2 = vpn'")
    case True
    with Cons.prems(3) e2 have "free_page_hit vpn' directoryidx pteidx e2 s = Some s'"
      by (simp add: a)
    from free_page_hit_keeps[OF Cons.prems(1,2) e2 True this] show ?thesis .
  next
    case False
    with Cons.prems(3) e2 have "free_page_loop vpn' ps s = Some s'"
      by (simp add: a)
    from Cons.IH[OF Cons.prems(1,2) this] show ?thesis .
  qed
qed

text \<open>
  An entry whose \<^verbatim>\<open>private\<close> field is not \<^verbatim>\<open>vpn\<close> survives \<^verbatim>\<open>free_page(vpn)\<close>, whatever
  its place in the table: \<^verbatim>\<open>alloc_page\<close> sets \<^verbatim>\<open>private\<close> to 0, so no page that it mapped
  at a vpn other than 0 is ever unmapped by \<^verbatim>\<open>free_page\<close> of that vpn.
\<close>

lemma free_page_keeps_unmarked:
  assumes "read_pte s (current s) i j = Some e" and "private e \<noteq> vpn'"
    and "free_page vpn' s = Some s'"
  shows "read_pte s' (current s') i j = Some e"
proof -
  from assms(3) have "free_page_loop vpn' (List.product [0..<16] [0..<16]) s = Some s'"
    by (simp only: free_page_def)
  from free_page_loop_keeps[OF assms(1,2) this] show ?thesis .
qed

text \<open>\<^verbatim>\<open>free_page\<close> reads through directory 0 first, \<^verbatim>\<open>NULL\<close> or not.\<close>

lemma free_page_null_directory:
  assumes "read_dirptr s (current s) 0 = Some None"
  shows "free_page vpn' s = None"
proof -
  have "List.product [0..<16] [0..<16] = (0, 0) # tl (List.product [0..<16] [0..<16])"
    by code_simp
  then obtain rest where "List.product [0..<16] [0..<16] = (0, 0) # rest"
    by blast
  then show ?thesis
    using assms by (simp add: free_page_def read_pte_def)
qed

text \<open>The branch of \<^verbatim>\<open>switch_process\<close> for a pid of the ready queue.\<close>

lemma switch_process_found:
  assumes "list_find_pid (procs s) pid' (processes s) = Some (Some pos)"
    and "procs s (current s) = Some c"
  shows "switch_process ACCESS_READ ACCESS_WRITE raw fresh junk pid' s =
           Some (s\<lparr>processes := current s # remove1 pos (processes s), current := pos\<rparr>)"
  using assms by (simp add: switch_process_def list_add_def list_del_def)

lemma switch_process_found_unchanged:
  assumes "list_find_pid (procs s) pid' (processes s) = Some (Some pos)"
    and "switch_process ACCESS_READ ACCESS_WRITE raw fresh junk pid' s = Some s'"
  shows "ptbr s' = ptbr s \<and> mapcounts s' = mapcounts s \<and> tlb s' = tlb s \<and>
         dirs s' = dirs s \<and> procs s' = procs s"
  using assms by (auto simp: switch_process_def split: option.splits)

text \<open>
  The invariant of the reference counts holds at the start and after \<^verbatim>\<open>alloc_page\<close>,
  and is lost in the fork.
\<close>

lemma refcount_invariant_runs:
  "refcount_invariant init_state \<and>
   map_option (\<lambda>(s, f). refcount_invariant s) (alloc_page zero_dir 0 5 2 init_state) = Some True \<and>
   map_option refcount_invariant (alloc_then_fork 2) = Some False"
  by code_simp

text \<open>
  \<^verbatim>\<open>free_page(0)\<close> when vpn 0 is not mapped and vpn 5 is: the entry of vpn 0 has
  \<^verbatim>\<open>private\<close> 0, so it is hit, and \<^verbatim>\<open>mapcounts[0]\<close>, the count of the frame of vpn 5, drops
  to 0 while vpn 5 stays mapped to frame 0.
\<close>

lemma free_page_unmapped_vpn_changes_state:
  "map_option (\<lambda>s. (mapcounts s ! 0, read_pte s (current s) 0 5))
     (Option.bind (alloc_page zero_dir 0 5 2 init_state) (\<lambda>(s, f). free_page 0 s)) =
   Some (0, Some \<lparr>pte.valid = True, rw = 2, pfn = 0, private = 0\<rparr>)"
  by code_simp

section \<open>The claims\<close>

text \<open>
  C1 (global reference-count invariant): the claim is that after any sequence of
  operations \<^verbatim>\<open>mapcounts[f]\<close> is the number of valid entries, over all processes, whose
  frame is \<open>f\<close>. The source breaks it: after \<^verbatim>\<open>alloc_page(5, ACCESS_WRITE)\<close> and the fork
  \<^verbatim>\<open>switch_process(1)\<close> frame 0 is named by two valid entries and \<^verbatim>\<open>mapcounts[0]\<close> is 1,
  and \<^verbatim>\<open>mapcounts[5]\<close> is 1 while no entry names frame 5 (line 246 indexes
  \<^verbatim>\<open>mapcounts\<close> with the vpn \<^verbatim>\<open>i*NR_PTES_PER_PAGE+j\<close>).
\<close>

theorem refcount_invariant_broken_by_fork:
  "map_option (\<lambda>s. (mapcounts s ! 0, pte_refs s 0, mapcounts s ! 5, pte_refs s 5))
     (alloc_then_fork 2) = Some (1, 2, 1, 0)"
  by code_simp

text \<open>
  C2 (copy-on-write fork): the claim is that a read-only entry is replicated unchanged
  and that the count of the frame named by the entry goes up by one. The source does
  neither: after \<^verbatim>\<open>alloc_page(5, ACCESS_READ)\<close>, which maps vpn 5 read-only to frame 0
  with \<^verbatim>\<open>private\<close> 0, the fork leaves the parent (address 0) and the child with
  \<^verbatim>\<open>private\<close> 1, leaves \<^verbatim>\<open>mapcounts[0]\<close> at 1 and raises \<^verbatim>\<open>mapcounts[5]\<close> to 1.
\<close>

theorem fork_marks_readonly_pte_and_counts_vpn:
  "map_option (\<lambda>(s, f). (f, read_pte s (current s) 0 5)) (alloc_page zero_dir 0 5 1 init_state) =
     Some (0, Some \<lparr>pte.valid = True, rw = 1, pfn = 0, private = 0\<rparr>) \<and>
   map_option (\<lambda>s. (read_pte s 0 0 5, read_pte s (current s) 0 5, mapcounts s ! 0, mapcounts s ! 5))
     (alloc_then_fork 1) =
     Some (Some \<lparr>pte.valid = True, rw = 1, pfn = 0, private = 1\<rparr>,
           Some \<lparr>pte.valid = True, rw = 1, pfn = 0, private = 1\<rparr>, 1, 1)"
  by code_simp

text \<open>
  C3 (\<^verbatim>\<open>free_page\<close> of a mapped vpn): the claim is that the entry at
  \<open>(vpn / 16, vpn % 16)\<close> is cleared and the count of its frame decremented. The source
  looks for an entry whose \<^verbatim>\<open>private\<close> field equals \<^verbatim>\<open>vpn\<close>: after
  \<^verbatim>\<open>alloc_page(5, ACCESS_WRITE)\<close> the call \<^verbatim>\<open>free_page(5)\<close> finds none in directory 0 and
  dereferences the \<^verbatim>\<open>NULL\<close> pointer of directory 1.
\<close>

theorem free_page_mapped_vpn_crashes:
  "map_option (\<lambda>(s, f). (f, read_pte s (current s) 0 5)) (alloc_page zero_dir 0 5 2 init_state) =
     Some (0, Some \<lparr>pte.valid = True, rw = 2, pfn = 0, private = 0\<rparr>) \<and>
   Option.bind (alloc_page zero_dir 0 5 2 init_state) (\<lambda>(s, f). free_page 5 s) = None"
  by code_simp

text \<open>
  C4 (\<^verbatim>\<open>free_page\<close> of an unmapped vpn): the claim is a no-op that never crashes, also
  when the directory was never allocated. At the start no directory is allocated, and
  \<^verbatim>\<open>free_page(7)\<close> dereferences the \<^verbatim>\<open>NULL\<close> pointer \<^verbatim>\<open>outer_ptes[0]\<close>.
\<close>

theorem free_page_unallocated_directory_crashes:
  "read_dirptr init_state (current init_state) 0 = Some None \<and> free_page 7 init_state = None"
  by code_simp

text \<open>
  C5 (\<^verbatim>\<open>lookup_tlb\<close>): the claim is that on a hit the frame of the matching entry is
  stored through \<^verbatim>\<open>pfn\<close>. After \<^verbatim>\<open>insert_tlb(5, 1, 7)\<close> the call \<^verbatim>\<open>lookup_tlb(5, 1, &out)\<close>
  with \<open>out = 0\<close> returns true and leaves \<open>out\<close> at 0, not 7.
\<close>

theorem lookup_tlb_hit_does_not_store_pfn:
  "Option.bind (insert_tlb 5 1 7 init_state) (lookup_tlb 5 1 0) = Some (True, 0)"
  by code_simp

text \<open>
  C6 (\<^verbatim>\<open>insert_tlb\<close>): the claim is that an entry for the same vpn is updated in place
  and that the slots are used cyclically. After \<^verbatim>\<open>insert_tlb(5, 1, 7)\<close> and
  \<^verbatim>\<open>insert_tlb(5, 2, 9)\<close> slot 0 still holds the first mapping and slot 1 holds a second
  entry for vpn 5; with \<^verbatim>\<open>tlbidx\<close> at 256 the next call writes past the array.
\<close>

theorem insert_tlb_adds_second_entry:
  "map_option (\<lambda>s. (tlb s ! 0, tlb s ! 1, tlbidx s))
     (Option.bind (insert_tlb 5 1 7 init_state) (insert_tlb 5 2 9)) =
     Some (\<lparr>tlb_entry.valid = True, rw = 1, vpn = 5, pfn = 7\<rparr>,
           \<lparr>tlb_entry.valid = True, rw = 2, vpn = 5, pfn = 9\<rparr>, 2) \<and>
   insert_tlb 5 2 9 (init_state\<lparr>tlbidx := 256\<rparr>) = None"
  by code_simp

text \<open>
  C7 (\<^verbatim>\<open>alloc_page\<close>): the claim is that without a free frame the call fails with the
  allocation-failure value. With every \<^verbatim>\<open>mapcounts\<close> entry at 1, \<^verbatim>\<open>alloc_page(200, 2)\<close>
  returns what the uninitialised \<^verbatim>\<open>newpte.pfn\<close> holds and installs a valid entry with
  that frame at vpn 200 = 12 * 16 + 8.
\<close>

theorem alloc_page_exhausted_returns_uninitialised:
  "map_option (\<lambda>(s, f). (f, read_pte s (current s) 12 8))
     (alloc_page zero_dir junk 200 2 full_state) =
   Some (junk, Some \<lparr>pte.valid = True, rw = 2, pfn = junk, private = 0\<rparr>)"
  by code_simp

text \<open>
  C8 (\<^verbatim>\<open>switch_process\<close> to a process of the ready queue): the claim is that \<^verbatim>\<open>ptbr\<close> is
  repointed to the process found. After the fork of process 1 and the switch back to
  process 0, process 0 (address 0) is current, \<^verbatim>\<open>ptbr\<close> points at its page table and
  the queue holds process 1 (address 1); \<^verbatim>\<open>switch_process(1)\<close> then makes process 1
  current and leaves \<^verbatim>\<open>ptbr\<close> at the page table of process 0.
\<close>

theorem switch_process_found_leaves_ptbr:
  "map_option (\<lambda>s. (current s, ptbr s, processes s)) fork_and_back = Some (0, 0, [1]) \<and>
   map_option (\<lambda>s. (current s, ptbr s, processes s)) (Option.bind fork_and_back (switch_to 1)) =
     Some (1, 0, [0])"
  by code_simp

text \<open>
  C9 (single-owner write fault): the claim is that a write fault on a valid read-only
  entry with the shared marker, whose frame has count 1, succeeds and makes the entry
  writable. After \<^verbatim>\<open>alloc_page(5, ACCESS_WRITE)\<close> and the fork the child holds such an
  entry for vpn 5 and \<^verbatim>\<open>mapcounts[0]\<close> is 1; \<^verbatim>\<open>handle_page_fault(5, ACCESS_WRITE)\<close>
  returns false and leaves the entry as it was.
\<close>

theorem handle_page_fault_refuses_single_owner:
  "map_option (\<lambda>s. (read_pte s (current s) 0 5, mapcounts s ! 0, snd (handle_page_fault 5 2 s),
                     read_pte (fst (handle_page_fault 5 2 s)) (current s) 0 5))
     (alloc_then_fork 2) =
   Some (Some \<lparr>pte.valid = True, rw = 1, pfn = 0, private = 1\<rparr>, 1, False,
         Some \<lparr>pte.valid = True, rw = 1, pfn = 0, private = 1\<rparr>)"
  by code_simp

text \<open>
  C10 (a fresh page is not marked shared): in a state where the current process exists
  with its 16 directory pointers, the vpn is below 256, the directory of the vpn is
  \<^verbatim>\<open>NULL\<close> or a directory of 16 entries, \<^verbatim>\<open>mapcounts\<close> has its 128 entries and some frame
  \<open>k\<close> is free, \<^verbatim>\<open>alloc_page(vpn, rw)\<close> returns a frame \<open>f\<close> up to \<open>k\<close> that was free, and
  the entry it leaves at \<open>(vpn / 16, vpn % 16)\<close> in the current page table names \<open>f\<close> and
  has \<^verbatim>\<open>private\<close> 0.
\<close>

theorem alloc_page_private_zero:
  assumes cur: "procs s (current s) = Some p"
    and len: "length (outer_ptes (pagetable p)) = NR_PTES_PER_PAGE"
    and vpn: "unat vpn' < NR_PTES_PER_PAGE * NR_PTES_PER_PAGE"
    and dir: "case outer_ptes (pagetable p) ! (unat vpn' div NR_PTES_PER_PAGE) of
                None \<Rightarrow> length fresh = NR_PTES_PER_PAGE
              | Some da \<Rightarrow>
                  (case dirs s da of None \<Rightarrow> False | Some d \<Rightarrow> length d = NR_PTES_PER_PAGE)"
    and mc: "length (mapcounts s) = NR_PAGEFRAMES"
    and free: "k < NR_PAGEFRAMES" "mapcounts s ! k = 0"
  shows "\<exists>s' f e. alloc_page fresh junk vpn' rw' s = Some (s', f) \<and>
           unat f \<le> k \<and> mapcounts s ! unat f = 0 \<and>
           read_pte s' (current s') (unat vpn' div NR_PTES_PER_PAGE)
             (unat vpn' mod NR_PTES_PER_PAGE) = Some e \<and>
           pte.pfn e = f \<and> private e = 0"
proof -
  let ?di = "unat vpn' div NR_PTES_PER_PAGE"
  let ?pi = "unat vpn' mod NR_PTES_PER_PAGE"
  have di: "?di < length (outer_ptes (pagetable p))"
    using vpn len by (simp add: NR_PTES_PER_PAGE_def)
  have pi: "?pi < NR_PTES_PER_PAGE"
    by (simp add: NR_PTES_PER_PAGE_def)
  from alloc_scan_free[OF mc free, of junk] obtain k0 where k0: "k0 \<le> k" "mapcounts s ! k0 = 0"
    and scan: "alloc_scan (mapcounts s) junk [0..<128] = Some ((mapcounts s)[k0 := 1], of_nat k0)"
    by blast
  have "k0 < 2 ^ 32"
    using k0(1) free(1) by (simp add: NR_PAGEFRAMES_def)
  then have u: "unat (of_nat k0 :: u32) = k0"
    by (simp add: unat_of_nat)
  show ?thesis
  proof (cases "outer_ptes (pagetable p) ! ?di")
    case None
    with dir have fl: "length fresh = NR_PTES_PER_PAGE" by simp
    show ?thesis
      using cur di pi None fl scan k0 u
      by (simp add: alloc_page_def read_dirptr_def write_dirptr_def malloc_dir_def
            write_pte_def read_pte_def Let_def)
  next
    case (Some da)
    with dir obtain d where d: "dirs s da = Some d" "length d = NR_PTES_PER_PAGE"
      by (auto split: option.splits)
    show ?thesis
      using cur di pi Some d scan k0 u
      by (simp add: alloc_page_def read_dirptr_def write_dirptr_def malloc_dir_def
            write_pte_def read_pte_def Let_def)
  qed
qed

text \<open>
  The theorem of C10 at the start of the simulation, for \<^verbatim>\<open>alloc_page(5, ACCESS_WRITE)\<close>
  with the free frame 0.
\<close>

theorem alloc_page_private_zero_witness:
  "procs init_state (current init_state) = Some zero_process \<and>
   mapcounts init_state ! 0 = 0 \<and>
   (\<exists>s' f e. alloc_page zero_dir 0 5 2 init_state = Some (s', f) \<and>
      unat f \<le> 0 \<and> mapcounts init_state ! unat f = 0 \<and>
      read_pte s' (current s') 0 5 = Some e \<and> pte.pfn e = f \<and> private e = 0)"
  using alloc_page_private_zero[of init_state zero_process 5 zero_dir 0 0 2]
  by (simp add: init_state_def zero_process_def zero_dir_def NR_PTES_PER_PAGE_def
        NR_PAGEFRAMES_def)

end
